theory Spec2Isabelle
  imports Complex_Main "HOL-Library.AList"
begin

section \<open>Values shared by the history page and the statistics page\<close>

text \<open>
  The two scripts under verification are \<^verbatim>\<open>history.js\<close> (class \<^verbatim>\<open>HistoryManager\<close>) and the
  statistics script (class \<^verbatim>\<open>StatisticsManager\<close>).  The embedding keeps the names of the
  source.  Conventions:

  \<^item> Counts, page numbers and totals are JavaScript numbers holding integers; they are
    modelled as \<^typ>\<open>int\<close>.  The one division of the source (\<^verbatim>\<open>successRate\<close>) is taken
    over the rationals, exactly; the rounding of the intermediate IEEE double is not
    modelled.
  \<^item> Language names and date keys are \<^typ>\<open>string\<close>s.  Property keys of a JavaScript
    object that are not canonical array indices are enumerated in insertion order, so
    an object used as a dictionary is an association list in insertion order, updated
    in place with \<^const>\<open>AList.update\<close> (a present key keeps its position, a new key
    is appended).
  \<^item> The text of a detection is a list of UTF-16 code units, which is what
    \<^verbatim>\<open>length\<close> and \<^verbatim>\<open>substring\<close> count.
  \<^item> Every exception the modelled code can raise is a value of \<open>js_error\<close>.
\<close>

datatype js_error = TypeError | RangeError | SyntaxError | FetchError

type_synonym code_unit = nat

type_synonym js_string = "code_unit list"

section \<open>HistoryManager: text preview and language badge\<close>

text \<open>
  \<^verbatim>\<open>displayHistory\<close>, lines 118-120 and 126:
  \<^verbatim>\<open>
  const textPreview = detection.input_text.length > 100
      ? detection.input_text.substring(0, 100) + '...'
      : detection.input_text;
  ... ${detection.input_text.length > 100 ? `<button ...>Show full text</button>` : ''}
  \<close>
  The ellipsis is three full stops (code unit 46).  The pair of the preview and of the
  test that shows the button is \<open>previewText\<close>.
\<close>

definition ellipsis :: js_string where
  "ellipsis = [46, 46, 46]"

definition textPreview :: "js_string \<Rightarrow> js_string" where
  "textPreview input_text =
     (if length input_text > 100 then take 100 input_text @ ellipsis else input_text)"

definition showFullTextButton :: "js_string \<Rightarrow> bool" where
  "showFullTextButton input_text = (length input_text > 100)"

record preview_result =
  preview :: js_string
  truncated :: bool

definition previewText :: "js_string \<Rightarrow> preview_result" where
  "previewText input_text =
     \<lparr>preview = textPreview input_text, truncated = showFullTextButton input_text\<rparr>"

text \<open>
  \<^verbatim>\<open>toLowerCase\<close> maps the letters A-Z to a-z.  Characters outside ASCII are left as
  they are here; none of them lower-cases to a string of ASCII letters that occurs in
  the three words the \<^verbatim>\<open>switch\<close> compares with, so the branch taken is the same.
\<close>

definition toLowerChar :: "char \<Rightarrow> char" where
  "toLowerChar c =
     (let n = (of_char c :: nat) in if 65 \<le> n \<and> n \<le> 90 then char_of (n + 32) else c)"

definition toLowerCase :: "string \<Rightarrow> string" where
  "toLowerCase s = map toLowerChar s"

text \<open>
  \<^verbatim>\<open>getLanguageBadgeClass(language)\<close>, lines 222-233.  The argument is
  \<^verbatim>\<open>detection.detected_language\<close>; \<open>None\<close> stands for a value that is
  \<^verbatim>\<open>null\<close> or \<^verbatim>\<open>undefined\<close>, on which \<^verbatim>\<open>language.toLowerCase()\<close> throws a TypeError.
\<close>

definition badge_hindi :: string where
  "badge_hindi = ''bg-gradient-to-r from-orange-500 to-red-500''"

definition badge_english :: string where
  "badge_english = ''bg-gradient-to-r from-blue-500 to-blue-600''"

definition badge_hinglish :: string where
  "badge_hinglish = ''bg-gradient-to-r from-green-500 to-emerald-500''"

definition badge_default :: string where
  "badge_default = ''bg-gradient-to-r from-gray-500 to-gray-600''"

definition getLanguageBadgeClass :: "string option \<Rightarrow> js_error + string" where
  "getLanguageBadgeClass language =
     (case language of
        None \<Rightarrow> Inl TypeError
      | Some l \<Rightarrow>
          (let k = toLowerCase l in
           if k = ''hindi'' then Inr badge_hindi
           else if k = ''english'' then Inr badge_english
           else if k = ''hinglish'' then Inr badge_hinglish
           else Inr badge_default))"

section \<open>StatisticsManager: overview cards\<close>

text \<open>
  \<^verbatim>\<open>displayStatistics\<close>, lines 426-435: the loop over
  \<^verbatim>\<open>Object.entries(stats.language_distribution)\<close>.  The entries are the pairs of a
  language and its \<^verbatim>\<open>data.count\<close>, in the iteration order of the object.
  \<^verbatim>\<open>
  let mostDetected = '-';  let maxCount = 0;
  for (const [lang, data] of Object.entries(languageCounts)) {
      if (data.count > maxCount) { maxCount = data.count; mostDetected = lang; }
  }
  \<close>
\<close>

fun mostDetected_loop :: "(string \<times> int) list \<Rightarrow> string \<Rightarrow> int \<Rightarrow> string" where
  "mostDetected_loop [] mostDetected maxCount = mostDetected"
| "mostDetected_loop ((lang, count) # rest) mostDetected maxCount =
     (if count > maxCount then mostDetected_loop rest lang count
      else mostDetected_loop rest mostDetected maxCount)"

definition mostFrequentLanguage :: "(string \<times> int) list \<Rightarrow> string" where
  "mostFrequentLanguage language_distribution =
     mostDetected_loop language_distribution ''-'' 0"





type_synonym activity_row = "(string \<times> int) list"

type_synonym activity_days = "(string \<times> activity_row) list"




definition activity_labels :: "activity_days \<Rightarrow> string list" where
  "activity_labels days = map fst days"

text \<open>
  The three data sets of the chart, \<^verbatim>\<open>labels.map(d => days[d].English)\<close> and its two
  siblings; \<open>None\<close> is \<^verbatim>\<open>undefined\<close>.
\<close>

definition cell :: "activity_days \<Rightarrow> string \<Rightarrow> string \<Rightarrow> int option" where
  "cell days d lang = (case map_of days d of None \<Rightarrow> None | Some row \<Rightarrow> map_of row lang)"

definition activity_dataset :: "activity_days \<Rightarrow> string \<Rightarrow> int option list" where
  "activity_dataset days lang = map (\<lambda>d. cell days d lang) (activity_labels days)"


section \<open>HistoryManager: the activity chart of the last seven days\<close>

text \<open>
  A \<^verbatim>\<open>Date\<close> holds a time value: the milliseconds since the epoch in UTC, or NaN
  (\<open>None\<close>, an invalid date).  The time zone of the browser is a parameter: its two
  conversions \<^verbatim>\<open>LocalTime\<close> and \<^verbatim>\<open>UTC\<close> of ECMA-262.  \<open>fixedZone c\<close> is a zone whose
  offset from UTC is always \<open>c\<close> milliseconds.
\<close>

record timezone =
  LocalTime :: "int \<Rightarrow> int"
  UTC :: "int \<Rightarrow> int"


definition msPerDay :: int where
  "msPerDay = 86400000"

definition TimeClip :: "int \<Rightarrow> int option" where
  "TimeClip t = (if \<bar>t\<bar> > 8640000000000000 then None else Some t)"

text \<open>
  \<^verbatim>\<open>const date = new Date(today); date.setDate(date.getDate() - i);\<close>
  \<^verbatim>\<open>setDate\<close> replaces the day of the month of the local time and keeps the time within
  the day; a day of the month below 1 counts back into the months before.  So the new
  local time is the old one minus \<open>i\<close> days, converted back to UTC and clipped.
\<close>

definition setDate_minus :: "timezone \<Rightarrow> int \<Rightarrow> nat \<Rightarrow> int option" where
  "setDate_minus tz today i = TimeClip (UTC tz (LocalTime tz today - int i * msPerDay))"

text \<open>
  \<^verbatim>\<open>date.toISOString().split('T')[0]\<close> is the calendar date of the time value in UTC,
  written \<^verbatim>\<open>YYYY-MM-DD\<close>; \<^verbatim>\<open>toISOString\<close> throws a RangeError on an invalid date.
  The date string is represented by the number of its day since the epoch.
\<close>

definition isoDate :: "int option \<Rightarrow> js_error + int" where
  "isoDate date = (case date of None \<Rightarrow> Inl RangeError | Some t \<Rightarrow> Inr (t div msPerDay))"


record detection =
  detection_id :: int
  input_text :: js_string
  detected_language :: "string option"
  confidence :: int
  created_at :: "int option"

text \<open>
  \<open>created_at\<close> is the time value of \<^verbatim>\<open>new Date(detection.created_at)\<close>, \<open>None\<close> when
  the string does not parse.  \<^verbatim>\<open>createHistoryActivityChart\<close>, lines 316-335 and 345:
  \<^verbatim>\<open>
  const last7Days = [];
  const today = new Date();
  for (let i = 6; i >= 0; i--) {
      const date = new Date(today);
      date.setDate(date.getDate() - i);
      last7Days.push(date.toISOString().split('T')[0]);
  }
  const dailyCounts = {};
  last7Days.forEach(date => { dailyCounts[date] = 0; });
  detections.forEach(detection => {
      const detectionDate = new Date(detection.created_at).toISOString().split('T')[0];
      if (dailyCounts.hasOwnProperty(detectionDate)) { dailyCounts[detectionDate]++; }
  });
  ... labels: last7Days ..., data: last7Days.map(date => dailyCounts[date])
  \<close>
\<close>

fun last7Days_loop :: "timezone \<Rightarrow> int \<Rightarrow> nat \<Rightarrow> int list \<Rightarrow> js_error + int list" where
  "last7Days_loop tz today 0 last7Days =
     (case isoDate (setDate_minus tz today 0) of
        Inl e \<Rightarrow> Inl e
      | Inr d \<Rightarrow> Inr (last7Days @ [d]))"
| "last7Days_loop tz today (Suc i) last7Days =
     (case isoDate (setDate_minus tz today (Suc i)) of
        Inl e \<Rightarrow> Inl e
      | Inr d \<Rightarrow> last7Days_loop tz today i (last7Days @ [d]))"

definition last7Days :: "timezone \<Rightarrow> int \<Rightarrow> js_error + int list" where
  "last7Days tz today = last7Days_loop tz today 6 []"

definition initCounts :: "int list \<Rightarrow> (int \<rightharpoonup> nat)" where
  "initCounts days = foldl (\<lambda>dailyCounts date. dailyCounts(date \<mapsto> 0)) Map.empty days"

fun countDetections :: "detection list \<Rightarrow> (int \<rightharpoonup> nat) \<Rightarrow> js_error + (int \<rightharpoonup> nat)" where
  "countDetections [] dailyCounts = Inr dailyCounts"
| "countDetections (detection # rest) dailyCounts =
     (case isoDate (created_at detection) of
        Inl e \<Rightarrow> Inl e
      | Inr detectionDate \<Rightarrow>
          countDetections rest
            (case dailyCounts detectionDate of
               None \<Rightarrow> dailyCounts
             | Some n \<Rightarrow> dailyCounts(detectionDate \<mapsto> n + 1)))"

definition bucketByDay ::
  "timezone \<Rightarrow> int \<Rightarrow> detection list \<Rightarrow> js_error + (int \<times> nat option) list" where
  "bucketByDay tz today detections =
     (case last7Days tz today of
        Inl e \<Rightarrow> Inl e
      | Inr days \<Rightarrow>
          (case countDetections detections (initCounts days) of
             Inl e \<Rightarrow> Inl e
           | Inr dailyCounts \<Rightarrow> Inr (map (\<lambda>date. (date, dailyCounts date)) days)))"


section \<open>HistoryManager: pagination state and reload\<close>

text \<open>
  The fields of \<^verbatim>\<open>HistoryManager\<close> (\<^verbatim>\<open>currentPage\<close>, \<^verbatim>\<open>perPage\<close>, \<^verbatim>\<open>totalPages\<close>,
  \<^verbatim>\<open>currentFilters\<close>, \<^verbatim>\<open>detections\<close>) and the parts of the page its methods write:
  whether the loading indicator and the table are shown, the body of the table, whether
  the empty-state element is hidden, the two pagination buttons, the pagination text
  (its three numbers), the data of the activity chart, and the requests sent so far.
  The elements that the methods look up by id (the loading indicator, the table and its
  body, the empty state, the buttons, the pagination text) are taken to be in the page,
  as they are in its template; only the canvas of the chart and the chart library are
  tested for by the code, and so are parameters here.
\<close>

record filters =
  language :: "string option"
  search :: "string option"

record request =
  request_page :: int
  request_per_page :: int
  request_filters :: filters

record table_row =
  row_text :: js_string
  row_show_full_text :: bool
  row_badge :: string
  row_language :: "string option"
  row_confidence :: int
  row_id :: int

datatype table_body = Rows "table_row list" | ErrorRow string

record history_manager =
  currentPage :: int
  perPage :: int
  totalPages :: int
  currentFilters :: filters
  detections :: "detection list"
  loading_shown :: bool
  table_shown :: bool
  tableBody :: table_body
  emptyState_hidden :: bool
  prev_disabled :: bool
  next_disabled :: bool
  pagination_info :: "int \<times> int \<times> int"
  activity_chart :: "(int \<times> nat option) list option"
  requests :: "request list"

record pagination =
  current_page :: int
  per_page :: int
  total_count :: int
  total_pages :: int
  has_previous :: bool
  has_next :: bool

record payload =
  payload_detections :: "detection list"
  payload_pagination :: pagination

text \<open>
  The JSON envelope \<^verbatim>\<open>{success, data}\<close>; \<open>data = None\<close> is an envelope without a
  usable \<^verbatim>\<open>data\<close> member, on which \<^verbatim>\<open>data.data.detections\<close> throws a TypeError.  A fetch
  has three outcomes: the promise of \<^verbatim>\<open>fetch\<close> rejects (network failure), the promise
  of \<^verbatim>\<open>response.json()\<close> rejects (the body is not JSON), or an envelope arrives.
\<close>

record envelope =
  success :: bool
  data :: "payload option"

datatype fetch_outcome = FetchRejected | JsonRejected | JsonBody envelope

text \<open>
  What a call reads from the browser: the time zone, the clock (\<^verbatim>\<open>new Date()\<close>), and
  whether the canvas of the chart and the chart library are there.
\<close>

record browser =
  zone :: timezone
  clock :: int
  chart_canvas :: bool
  chart_library :: bool

text \<open>\<^verbatim>\<open>showLoading(show)\<close>, lines 284-295, and \<^verbatim>\<open>showError(message)\<close>, lines 297-309.\<close>

definition showLoading :: "bool \<Rightarrow> history_manager \<Rightarrow> history_manager" where
  "showLoading show s =
     (if show then s\<lparr>loading_shown := True, table_shown := False\<rparr>
      else s\<lparr>loading_shown := False, table_shown := True\<rparr>)"

definition showError :: "string \<Rightarrow> history_manager \<Rightarrow> history_manager" where
  "showError message s = s\<lparr>tableBody := ErrorRow message\<rparr>"

text \<open>
  \<^verbatim>\<open>loadHistory\<close> up to its first \<^verbatim>\<open>await\<close>, lines 74-83: the loading indicator is
  shown and the request for the current page and filters is sent.
\<close>

definition loadHistory_request :: "history_manager \<Rightarrow> history_manager" where
  "loadHistory_request s =
     (let s1 = showLoading True s
      in s1\<lparr>requests := requests s1 @
            [\<lparr>request_page = currentPage s1, request_per_page = perPage s1,
              request_filters = currentFilters s1\<rparr>]\<rparr>)"

text \<open>
  The click handlers of \<^verbatim>\<open>bindEvents\<close>, lines 42-54, and \<^verbatim>\<open>applyFilters\<close>, lines
  57-71 (its arguments are the value of the language select and the trimmed value of
  the search input; an empty string is falsy).
\<close>

definition prevPage :: "history_manager \<Rightarrow> history_manager" where
  "prevPage s =
     (if currentPage s > 1 then loadHistory_request (s\<lparr>currentPage := currentPage s - 1\<rparr>)
      else s)"

definition nextPage :: "history_manager \<Rightarrow> history_manager" where
  "nextPage s =
     (if currentPage s < totalPages s
      then loadHistory_request (s\<lparr>currentPage := currentPage s + 1\<rparr>)
      else s)"

definition applyFilters :: "string \<Rightarrow> string \<Rightarrow> history_manager \<Rightarrow> history_manager" where
  "applyFilters languageFilter searchFilter s =
     loadHistory_request
       (s\<lparr>currentFilters :=
             \<lparr>language = (if languageFilter \<noteq> [] then Some languageFilter else None),
              search = (if searchFilter \<noteq> [] then Some searchFilter else None)\<rparr>,
          currentPage := 1\<rparr>)"

text \<open>
  \<^verbatim>\<open>displayHistory(detections)\<close>, lines 103-171.  A row is built for every detection
  before the table is written; building a row calls \<^verbatim>\<open>getLanguageBadgeClass\<close>, which
  can throw.  A method that can throw returns the state it reached and the exception.
\<close>

definition render_row :: "detection \<Rightarrow> js_error + table_row" where
  "render_row detection =
     (case getLanguageBadgeClass (detected_language detection) of
        Inl e \<Rightarrow> Inl e
      | Inr badge \<Rightarrow>
          Inr \<lparr>row_text = textPreview (input_text detection),
               row_show_full_text = showFullTextButton (input_text detection),
               row_badge = badge,
               row_language = detected_language detection,
               row_confidence = confidence detection,
               row_id = detection_id detection\<rparr>)"

fun render_rows :: "detection list \<Rightarrow> js_error + table_row list" where
  "render_rows [] = Inr []"
| "render_rows (detection # rest) =
     (case render_row detection of
        Inl e \<Rightarrow> Inl e
      | Inr row \<Rightarrow> (case render_rows rest of Inl e \<Rightarrow> Inl e | Inr rows \<Rightarrow> Inr (row # rows)))"

definition displayHistory ::
  "detection list \<Rightarrow> history_manager \<Rightarrow> history_manager \<times> js_error option" where
  "displayHistory ds s =
     (if length ds = 0 then (s\<lparr>tableBody := Rows [], emptyState_hidden := False\<rparr>, None)
      else
        (let s1 = s\<lparr>emptyState_hidden := True\<rparr>
         in case render_rows ds of
              Inl e \<Rightarrow> (s1, Some e)
            | Inr rows \<Rightarrow> (s1\<lparr>tableBody := Rows rows\<rparr>, None)))"

text \<open>\<^verbatim>\<open>updatePagination(pagination)\<close>, lines 267-282.\<close>

definition updatePagination :: "pagination \<Rightarrow> history_manager \<Rightarrow> history_manager" where
  "updatePagination p s =
     s\<lparr>prev_disabled := \<not> has_previous p,
       next_disabled := \<not> has_next p,
       pagination_info :=
         ((current_page p - 1) * per_page p + 1,
          min (current_page p * per_page p) (total_count p),
          total_count p),
       totalPages := total_pages p\<rparr>"

text \<open>\<^verbatim>\<open>createHistoryActivityChart(detections)\<close>, lines 311-373.\<close>

definition createHistoryActivityChart ::
  "browser \<Rightarrow> detection list \<Rightarrow> history_manager \<Rightarrow> history_manager \<times> js_error option" where
  "createHistoryActivityChart b ds s =
     (if \<not> chart_canvas b then (s, None)
      else
        (case bucketByDay (zone b) (clock b) ds of
           Inl e \<Rightarrow> (s, Some e)
         | Inr buckets \<Rightarrow>
             (if chart_library b then (s\<lparr>activity_chart := Some buckets\<rparr>, None)
              else (s, None))))"

text \<open>
  \<^verbatim>\<open>loadHistory\<close> from the first \<^verbatim>\<open>await\<close> on, lines 83-100: the body of the
  \<^verbatim>\<open>try\<close>, then \<^verbatim>\<open>catch\<close> on an exception, then \<^verbatim>\<open>finally\<close>.
  \<^verbatim>\<open>
  try {
      const response = await fetch(...);  const data = await response.json();
      if (data.success) {
          this.detections = data.data.detections;
          this.displayHistory(this.detections);
          this.updatePagination(data.data.pagination);
          this.createHistoryActivityChart(data.data.detections);
      } else { this.showError('Failed to load detection history.'); }
  } catch (error) { this.showError('Network error. Please check your connection.'); }
  finally { this.showLoading(false); }
  \<close>
\<close>

definition loadHistory_try ::
  "browser \<Rightarrow> fetch_outcome \<Rightarrow> history_manager \<Rightarrow> history_manager \<times> js_error option" where
  "loadHistory_try b outcome s =
     (case outcome of
        FetchRejected \<Rightarrow> (s, Some FetchError)
      | JsonRejected \<Rightarrow> (s, Some SyntaxError)
      | JsonBody env \<Rightarrow>
          (if success env then
             (case data env of
                None \<Rightarrow> (s, Some TypeError)
              | Some p \<Rightarrow>
                  (let s1 = s\<lparr>detections := payload_detections p\<rparr>
                   in case displayHistory (detections s1) s1 of
                        (s2, Some e) \<Rightarrow> (s2, Some e)
                      | (s2, None) \<Rightarrow>
                          createHistoryActivityChart b (payload_detections p)
                            (updatePagination (payload_pagination p) s2)))
           else (showError ''Failed to load detection history.'' s, None)))"

definition loadHistory_response ::
  "browser \<Rightarrow> fetch_outcome \<Rightarrow> history_manager \<Rightarrow> history_manager" where
  "loadHistory_response b outcome s =
     (case loadHistory_try b outcome s of
        (s1, Some e) \<Rightarrow>
          showLoading False (showError ''Network error. Please check your connection.'' s1)
      | (s1, None) \<Rightarrow> showLoading False s1)"


section \<open>Example inputs\<close>

text \<open>
  A manager on page 1 of 3 with nothing loaded, and a browser in a zone five and a half
  hours ahead of UTC whose clock reads 2026-11-02 20:30 UTC, which is 02:00 on
  2026-11-03 there.
\<close>

definition manager0 :: history_manager where
  "manager0 =
     \<lparr>currentPage = 1, perPage = 20, totalPages = 3,
      currentFilters = \<lparr>language = None, search = None\<rparr>,
      detections = [], loading_shown = False, table_shown = True,
      tableBody = Rows [], emptyState_hidden = True,
      prev_disabled = True, next_disabled = False,
      pagination_info = (1, 20, 45), activity_chart = None, requests = []\<rparr>"







text \<open>
  A zone with summer time: the offset is 0 before 2026-03-29 01:00 UTC and one hour
  from then on.  A local time that the change skips is read with the offset before the
  change, as ECMA-262 has it.
\<close>

definition summerZone :: timezone where
  "summerZone =
     \<lparr>LocalTime = (\<lambda>t. if t < 1774746000000 then t else t + 3600000),
      UTC = (\<lambda>t. if t < 1774746000000 + 3600000 then t else t - 3600000)\<rparr>"

section \<open>Properties of the text preview\<close>

lemma textPreview_short: "length t \<le> 100 \<Longrightarrow> textPreview t = t"
  by (simp add: textPreview_def)

lemma textPreview_long: "length t > 100 \<Longrightarrow> textPreview t = take 100 t @ ellipsis"
  by (simp add: textPreview_def)

lemma length_ellipsis: "length ellipsis = 3"
  by (simp add: ellipsis_def)

text \<open>
  A text of 101 code units: the preview is its first 100 code units and the three of
  the ellipsis, 103 in all and not 100.
\<close>

theorem previewText_counterexample:
  "length (replicate 101 (97::nat)) > 100 \<and>
   length (preview (previewText (replicate 101 97))) \<noteq> 100"
  by (simp add: previewText_def textPreview_def ellipsis_def)

text \<open>
  C4 (as amended).  A text of at most 100 code units is returned as it is, with
  \<open>truncated = False\<close>; this includes a text of exactly 100.  For a longer text the
  preview is the first 100 code units followed by the ellipsis, so its length is 103,
  and \<open>truncated = True\<close>.
\<close>

theorem previewText_cases:
  "(length t \<le> 100 \<longrightarrow> previewText t = \<lparr>preview = t, truncated = False\<rparr>) \<and>
   (length t > 100 \<longrightarrow>
      preview (previewText t) = take 100 t @ ellipsis \<and>
      length (preview (previewText t)) = 103 \<and>
      truncated (previewText t))"
proof (cases "length t \<le> 100")
  case True
  then show ?thesis
    by (simp add: previewText_def textPreview_short showFullTextButton_def)
next
  case False
  then have long: "length t > 100" by simp
  have "length (take 100 t @ ellipsis) = 103"
    using long by (simp add: length_ellipsis)
  with long show ?thesis
    by (simp add: previewText_def textPreview_long showFullTextButton_def)
qed

theorem previewText_cases_witness:
  "previewText (replicate 100 97) = \<lparr>preview = replicate 100 97, truncated = False\<rparr> \<and>
   length (preview (previewText (replicate 101 97))) = 103 \<and>
   truncated (previewText (replicate 101 97))"
  using previewText_cases [of "replicate 100 97"] previewText_cases [of "replicate 101 97"]
  by (simp add: length_ellipsis)

section \<open>Properties of the language badge\<close>

lemma badges_distinct:
  "badge_default \<noteq> badge_hindi" "badge_default \<noteq> badge_english"
  "badge_default \<noteq> badge_hinglish" "badge_hindi \<noteq> badge_english"
  "badge_hindi \<noteq> badge_hinglish" "badge_english \<noteq> badge_hinglish"
  by (simp_all add: badge_default_def badge_hindi_def badge_english_def badge_hinglish_def)

lemma toLowerCase_Hindi: "toLowerCase ''Hindi'' = ''hindi''" "toLowerCase ''HINDI'' = ''hindi''"
  by code_simp+

lemma toLowerCase_English: "toLowerCase ''English'' = ''english''" "toLowerCase ''ENGLISH'' = ''english''"
  by code_simp+

lemma toLowerCase_Hinglish: "toLowerCase ''Hinglish'' = ''hinglish''" "toLowerCase ''hInGlIsH'' = ''hinglish''"
  by code_simp+

lemma toLowerCase_Unknown: "toLowerCase ''Unknown'' = ''unknown''"
  by code_simp

text \<open>
  On an absent language (\<^verbatim>\<open>null\<close> or \<^verbatim>\<open>undefined\<close>) the call throws: no style is returned.
\<close>

theorem getLanguageBadgeClass_counterexample:
  "\<not> (\<exists>k. getLanguageBadgeClass None = Inr k)"
  by (simp add: getLanguageBadgeClass_def)

text \<open>
  C6 (as amended).  On every string the call returns a style and never fails.  The
  style depends on the lower-cased string only, so upper and lower case make no
  difference: it is the style of Hindi, of English or of Hinglish when the lower-cased
  string is that word, and the one fallback style for every other string; the fallback
  differs from the three.
\<close>

theorem getLanguageBadgeClass_string:
  "getLanguageBadgeClass (Some l) =
     Inr (if toLowerCase l = ''hindi'' then badge_hindi
          else if toLowerCase l = ''english'' then badge_english
          else if toLowerCase l = ''hinglish'' then badge_hinglish
          else badge_default) \<and>
   (toLowerCase l = toLowerCase l' \<longrightarrow>
      getLanguageBadgeClass (Some l) = getLanguageBadgeClass (Some l')) \<and>
   (toLowerCase l \<notin> {''hindi'', ''english'', ''hinglish''} \<longrightarrow>
      getLanguageBadgeClass (Some l) = Inr badge_default) \<and>
   (toLowerCase l \<in> {''hindi'', ''english'', ''hinglish''} \<longrightarrow>
      getLanguageBadgeClass (Some l) \<noteq> Inr badge_default)"
  using badges_distinct by (auto simp add: getLanguageBadgeClass_def Let_def)

theorem getLanguageBadgeClass_string_witness:
  "getLanguageBadgeClass (Some ''HINDI'') = Inr badge_hindi \<and>
   getLanguageBadgeClass (Some ''English'') = Inr badge_english \<and>
   getLanguageBadgeClass (Some ''hInGlIsH'') = Inr badge_hinglish \<and>
   getLanguageBadgeClass (Some ''Unknown'') = Inr badge_default \<and>
   getLanguageBadgeClass (Some ''Hindi'') = getLanguageBadgeClass (Some ''HINDI'')"
  using getLanguageBadgeClass_string [of "''HINDI''" "''Hindi''"]
    getLanguageBadgeClass_string [of "''English''" "''ENGLISH''"]
    getLanguageBadgeClass_string [of "''hInGlIsH''" "''Hinglish''"]
    getLanguageBadgeClass_string [of "''Unknown''" "''Unknown''"]
    getLanguageBadgeClass_string [of "''Hindi''" "''HINDI''"]
  by (simp add: toLowerCase_Hindi toLowerCase_English toLowerCase_Hinglish toLowerCase_Unknown)

section \<open>Properties of the success rate\<close>












section \<open>Properties of the most detected language\<close>

lemma mostDetected_loop_keep:
  "\<forall>e \<in> set es. snd e \<le> m \<Longrightarrow> mostDetected_loop es k m = k"
  by (induction es arbitrary: k m) auto

lemma mostDetected_loop_first_max:
  "\<exists>e \<in> set es. snd e > m \<Longrightarrow>
   \<exists>i < length es. mostDetected_loop es k m = fst (es ! i) \<and> m < snd (es ! i) \<and>
      (\<forall>j < length es. snd (es ! j) \<le> snd (es ! i)) \<and>
      (\<forall>j < i. snd (es ! j) < snd (es ! i))"
proof (induction es arbitrary: k m)
  case Nil
  then show ?case by simp
next
  case (Cons e es)
  obtain l c where e: "e = (l, c)" by (cases e)
  show ?case
  proof (cases "c > m")
    case True
    show ?thesis
    proof (cases "\<forall>x \<in> set es. snd x \<le> c")
      case all: True
      then have "mostDetected_loop (e # es) k m = l"
        using True e by (simp add: mostDetected_loop_keep)
      moreover have "\<forall>j < length (e # es). snd ((e # es) ! j) \<le> c"
        using all e by (auto simp: nth_Cons split: nat.splits)
      ultimately show ?thesis
        using True e by (intro exI [of _ 0]) simp
    next
      case False
      then have "\<exists>x \<in> set es. snd x > c" by (simp add: not_le)
      from Cons.IH [OF this, of l] obtain i where i: "i < length es"
        "mostDetected_loop es l c = fst (es ! i)" "c < snd (es ! i)"
        "\<forall>j < length es. snd (es ! j) \<le> snd (es ! i)"
        "\<forall>j < i. snd (es ! j) < snd (es ! i)"
        by blast
      have "\<forall>j < length (e # es). snd ((e # es) ! j) \<le> snd (es ! i)"
        using i e by (auto simp: nth_Cons split: nat.splits)
      moreover have "\<forall>j < Suc i. snd ((e # es) ! j) < snd (es ! i)"
        using i e by (auto simp: nth_Cons split: nat.splits)
      ultimately show ?thesis
        using i True e by (intro exI [of _ "Suc i"]) simp
    qed
  next
    case False
    then have "\<exists>x \<in> set es. snd x > m"
      using Cons.prems e by auto
    from Cons.IH [OF this, of k] obtain i where i: "i < length es"
      "mostDetected_loop es k m = fst (es ! i)" "m < snd (es ! i)"
      "\<forall>j < length es. snd (es ! j) \<le> snd (es ! i)"
      "\<forall>j < i. snd (es ! j) < snd (es ! i)"
      by blast
    have "\<forall>j < length (e # es). snd ((e # es) ! j) \<le> snd (es ! i)"
      using i e False by (auto simp: nth_Cons split: nat.splits)
    moreover have "\<forall>j < Suc i. snd ((e # es) ! j) < snd (es ! i)"
      using i e False by (auto simp: nth_Cons split: nat.splits)
    ultimately show ?thesis
      using i False e by (intro exI [of _ "Suc i"]) simp
  qed
qed

text \<open>
  A distribution whose only language has count 0: the key with the highest count is
  English, the result is the dash.
\<close>

theorem mostFrequentLanguage_counterexample:
  "mostFrequentLanguage [(''English'', 0)] \<noteq> ''English''"
  by (simp add: mostFrequentLanguage_def)

text \<open>
  C3 (as amended).  When no count is positive (the empty distribution included) the
  result is the dash \<open>''-''\<close>.  When some count is positive the result is the key of
  an entry whose count is the highest, and every entry before it in the iteration order
  has a strictly smaller count: among entries that share the highest count it is the
  first.
\<close>

theorem mostFrequentLanguage_first_max:
  "((\<forall>e \<in> set d. snd e \<le> 0) \<longrightarrow> mostFrequentLanguage d = ''-'') \<and>
   ((\<exists>e \<in> set d. snd e > 0) \<longrightarrow>
      (\<exists>i < length d. mostFrequentLanguage d = fst (d ! i) \<and>
         (\<forall>j < length d. snd (d ! j) \<le> snd (d ! i)) \<and>
         (\<forall>j < i. snd (d ! j) < snd (d ! i))))"
proof (intro conjI impI)
  assume "\<forall>e \<in> set d. snd e \<le> 0"
  then show "mostFrequentLanguage d = ''-''"
    unfolding mostFrequentLanguage_def by (rule mostDetected_loop_keep)
next
  assume "\<exists>e \<in> set d. snd e > 0"
  from mostDetected_loop_first_max [OF this, of "''-''"]
  show "\<exists>i < length d. mostFrequentLanguage d = fst (d ! i) \<and>
         (\<forall>j < length d. snd (d ! j) \<le> snd (d ! i)) \<and>
         (\<forall>j < i. snd (d ! j) < snd (d ! i))"
    unfolding mostFrequentLanguage_def by blast
qed

theorem mostFrequentLanguage_first_max_witness:
  "mostFrequentLanguage [(''English'', 5), (''Hindi'', 5)] = ''English'' \<and>
   mostFrequentLanguage [(''English'', 0), (''Hindi'', 0)] = ''-''"
proof
  let ?d = "[(''English'', 5), (''Hindi'', 5)] :: (string \<times> int) list"
  have "\<exists>e \<in> set ?d. snd e > 0" by simp
  with mostFrequentLanguage_first_max [of ?d]
  obtain i where i: "i < length ?d" "mostFrequentLanguage ?d = fst (?d ! i)"
    "\<forall>j < i. snd (?d ! j) < snd (?d ! i)"
    by blast
  have "i = 0"
  proof (rule ccontr)
    assume "i \<noteq> 0"
    with i(1) have "i = 1" by simp
    with i(3) have "snd (?d ! 0) < snd (?d ! 1)" by blast
    then show False by simp
  qed
  with i(2) show "mostFrequentLanguage ?d = ''English''" by simp
next
  let ?z = "[(''English'', 0), (''Hindi'', 0)] :: (string \<times> int) list"
  have "\<forall>e \<in> set ?z. snd e \<le> 0" by simp
  with mostFrequentLanguage_first_max [of ?z]
  show "mostFrequentLanguage ?z = ''-''" by blast
qed

section \<open>Properties of pagination and reload\<close>

lemma currentPage_showLoading: "currentPage (showLoading b s) = currentPage s"
  by (simp add: showLoading_def)

lemma currentPage_loadHistory_request: "currentPage (loadHistory_request s) = currentPage s"
  by (simp add: loadHistory_request_def Let_def currentPage_showLoading)

lemma totalPages_loadHistory_request: "totalPages (loadHistory_request s) = totalPages s"
  by (simp add: loadHistory_request_def Let_def showLoading_def)

lemma requests_loadHistory_request:
  "requests (loadHistory_request s) =
     requests s @ [\<lparr>request_page = currentPage s, request_per_page = perPage s,
                    request_filters = currentFilters s\<rparr>]"
  by (simp add: loadHistory_request_def Let_def showLoading_def)


lemma displayHistory_keeps:
  "displayHistory ds s = (s', e) \<Longrightarrow>
   currentPage s' = currentPage s \<and> requests s' = requests s \<and> perPage s' = perPage s \<and>
   currentFilters s' = currentFilters s \<and> totalPages s' = totalPages s"
  by (auto simp: displayHistory_def Let_def split: if_splits sum.splits)

lemma createHistoryActivityChart_keeps:
  "createHistoryActivityChart b ds s = (s', e) \<Longrightarrow>
   currentPage s' = currentPage s \<and> requests s' = requests s \<and> perPage s' = perPage s \<and>
   currentFilters s' = currentFilters s \<and> totalPages s' = totalPages s"
  by (auto simp: createHistoryActivityChart_def split: if_splits sum.splits)

lemma updatePagination_keeps:
  "currentPage (updatePagination p s) = currentPage s \<and>
   requests (updatePagination p s) = requests s \<and>
   perPage (updatePagination p s) = perPage s \<and>
   currentFilters (updatePagination p s) = currentFilters s"
  by (simp add: updatePagination_def)

lemma loadHistory_try_keeps:
  assumes "loadHistory_try b outcome s = (s', e)"
  shows "currentPage s' = currentPage s \<and> requests s' = requests s \<and>
         perPage s' = perPage s \<and> currentFilters s' = currentFilters s"
proof (cases outcome)
  case FetchRejected
  with assms show ?thesis by (simp add: loadHistory_try_def)
next
  case JsonRejected
  with assms show ?thesis by (simp add: loadHistory_try_def)
next
  case (JsonBody env)
  show ?thesis
  proof (cases "success env")
    case False
    with assms JsonBody show ?thesis
      by (auto simp: loadHistory_try_def showError_def)
  next
    case True
    show ?thesis
    proof (cases "data env")
      case None
      with assms JsonBody True show ?thesis by (simp add: loadHistory_try_def)
    next
      case (Some p)
      define s1 where "s1 = s\<lparr>detections := payload_detections p\<rparr>"
      obtain s2 e2 where d: "displayHistory (payload_detections p) s1 = (s2, e2)"
        by (cases "displayHistory (payload_detections p) s1")
      from displayHistory_keeps [OF d]
      have k2: "currentPage s2 = currentPage s" "requests s2 = requests s"
        "perPage s2 = perPage s" "currentFilters s2 = currentFilters s"
        by (simp_all add: s1_def)
      show ?thesis
      proof (cases e2)
        case (Some err)
        with assms JsonBody True \<open>data env = Some p\<close> d have "s' = s2"
          by (simp add: loadHistory_try_def s1_def)
        with k2 show ?thesis by simp
      next
        case None
        with assms JsonBody True \<open>data env = Some p\<close> d
        have c: "createHistoryActivityChart b (payload_detections p)
                   (updatePagination (payload_pagination p) s2) = (s', e)"
          by (simp add: loadHistory_try_def s1_def)
        from createHistoryActivityChart_keeps [OF c] updatePagination_keeps k2
        show ?thesis by simp
      qed
    qed
  qed
qed

lemma loadHistory_response_keeps:
  "currentPage (loadHistory_response b outcome s) = currentPage s \<and>
   requests (loadHistory_response b outcome s) = requests s \<and>
   perPage (loadHistory_response b outcome s) = perPage s \<and>
   currentFilters (loadHistory_response b outcome s) = currentFilters s"
proof -
  obtain s1 e where t: "loadHistory_try b outcome s = (s1, e)"
    by (cases "loadHistory_try b outcome s")
  from loadHistory_try_keeps [OF t] t show ?thesis
    by (cases e) (simp_all add: loadHistory_response_def showLoading_def showError_def)
qed


lemma manager0_fields:
  "currentPage manager0 = 1" "totalPages manager0 = 3" "requests manager0 = []"
  by (simp_all add: manager0_def)

text \<open>
  C7.  The handler of the previous-page button lowers \<open>currentPage\<close> by exactly one and
  sends a request when \<open>currentPage > 1\<close>, and otherwise leaves the whole state as it
  is (so no request is sent); the handler of the next-page button raises it by exactly
  one and sends a request when \<open>currentPage < totalPages\<close>, and otherwise leaves the
  state as it is.  Hence \<open>1 \<le> currentPage\<close> is kept by both handlers, by
  \<open>applyFilters\<close> and by the handling of a response.
\<close>

theorem pagination_guards:
  "(currentPage s > 1 \<longrightarrow>
      currentPage (prevPage s) = currentPage s - 1 \<and>
      requests (prevPage s) =
        requests s @ [\<lparr>request_page = currentPage s - 1, request_per_page = perPage s,
                       request_filters = currentFilters s\<rparr>]) \<and>
   (\<not> currentPage s > 1 \<longrightarrow> prevPage s = s) \<and>
   (currentPage s < totalPages s \<longrightarrow>
      currentPage (nextPage s) = currentPage s + 1 \<and>
      requests (nextPage s) =
        requests s @ [\<lparr>request_page = currentPage s + 1, request_per_page = perPage s,
                       request_filters = currentFilters s\<rparr>]) \<and>
   (\<not> currentPage s < totalPages s \<longrightarrow> nextPage s = s) \<and>
   (1 \<le> currentPage s \<longrightarrow>
      1 \<le> currentPage (prevPage s) \<and> 1 \<le> currentPage (nextPage s) \<and>
      1 \<le> currentPage (applyFilters languageFilter searchFilter s) \<and>
      1 \<le> currentPage (loadHistory_response b outcome s))"
proof (intro conjI impI)
  assume "currentPage s > 1"
  then show "currentPage (prevPage s) = currentPage s - 1"
    by (simp add: prevPage_def currentPage_loadHistory_request)
next
  assume "currentPage s > 1"
  then show "requests (prevPage s) =
      requests s @ [\<lparr>request_page = currentPage s - 1, request_per_page = perPage s,
                     request_filters = currentFilters s\<rparr>]"
    by (simp add: prevPage_def requests_loadHistory_request)
next
  assume "\<not> currentPage s > 1"
  then show "prevPage s = s" by (simp add: prevPage_def)
next
  assume "currentPage s < totalPages s"
  then show "currentPage (nextPage s) = currentPage s + 1"
    by (simp add: nextPage_def currentPage_loadHistory_request)
next
  assume "currentPage s < totalPages s"
  then show "requests (nextPage s) =
      requests s @ [\<lparr>request_page = currentPage s + 1, request_per_page = perPage s,
                     request_filters = currentFilters s\<rparr>]"
    by (simp add: nextPage_def requests_loadHistory_request)
next
  assume "\<not> currentPage s < totalPages s"
  then show "nextPage s = s" by (simp add: nextPage_def)
next
  assume "1 \<le> currentPage s"
  then show "1 \<le> currentPage (prevPage s)"
    by (simp add: prevPage_def currentPage_loadHistory_request)
next
  assume "1 \<le> currentPage s"
  then show "1 \<le> currentPage (nextPage s)"
    by (simp add: nextPage_def currentPage_loadHistory_request)
next
  show "1 \<le> currentPage (applyFilters languageFilter searchFilter s)"
    by (simp add: applyFilters_def currentPage_loadHistory_request)
next
  assume "1 \<le> currentPage s"
  then show "1 \<le> currentPage (loadHistory_response b outcome s)"
    by (simp add: loadHistory_response_keeps)
qed

theorem pagination_guards_witness:
  "prevPage manager0 = manager0 \<and>
   currentPage (nextPage manager0) = 2 \<and>
   length (requests (nextPage manager0)) = 1 \<and>
   currentPage (nextPage (nextPage manager0)) = 3 \<and>
   nextPage (nextPage (nextPage manager0)) = nextPage (nextPage manager0) \<and>
   currentPage (prevPage (nextPage manager0)) = 1"
proof -
  have t1: "totalPages (nextPage manager0) = 3"
    by (simp add: nextPage_def totalPages_loadHistory_request manager0_fields)
  have c1: "currentPage (nextPage manager0) = 2"
    using pagination_guards [of manager0] by (simp add: manager0_fields)
  have c2: "currentPage (nextPage (nextPage manager0)) = 3"
    using pagination_guards [of "nextPage manager0"] by (simp add: t1 c1)
  have t2: "totalPages (nextPage (nextPage manager0)) = 3"
    by (simp add: nextPage_def [of "nextPage manager0"] totalPages_loadHistory_request t1 c1)
  have "nextPage (nextPage (nextPage manager0)) = nextPage (nextPage manager0)"
    using pagination_guards [of "nextPage (nextPage manager0)"] by (simp add: t2 c2)
  moreover have "currentPage (prevPage (nextPage manager0)) = 1"
    using pagination_guards [of "nextPage manager0"] by (simp add: c1)
  moreover have "prevPage manager0 = manager0"
    "length (requests (nextPage manager0)) = 1"
    using pagination_guards [of manager0] by (simp_all add: manager0_fields)
  ultimately show ?thesis
    using c1 c2 by simp
qed



section \<open>Properties of the daily language series\<close>























section \<open>Properties of the seven-day activity buckets\<close>








text \<open>
  A record whose \<open>created_at\<close> is not a valid date stops the count with the
  RangeError of \<^verbatim>\<open>toISOString\<close>.
\<close>

lemma countDetections_invalid:
  "\<exists>d \<in> set ds. created_at d = None \<Longrightarrow> countDetections ds m = Inl RangeError"
proof (induction ds arbitrary: m)
  case Nil
  then show ?case by simp
next
  case (Cons d ds)
  show ?case
  proof (cases "created_at d")
    case None
    then show ?thesis by (simp add: isoDate_def)
  next
    case (Some t)
    with Cons.prems have "\<exists>d \<in> set ds. created_at d = None" by auto
    from Cons.IH [OF this] Some show ?thesis by (simp add: isoDate_def)
  qed
qed








text \<open>
  Outside the zones of constant offset the seven days need not be consecutive.  In
  \<open>summerZone\<close> at 00:30 local time on 2026-03-30 (23:30 on 2026-03-29 in UTC) the day
  before, at the same local time, is 00:30 on 2026-03-29 in UTC as well: day 20541
  comes twice and day 20535 is missing.
\<close>

lemma last7Days_summerZone:
  "last7Days summerZone 1774827000000 =
     Inr [20536, 20537, 20538, 20539, 20540, 20541, 20541]"
  by code_simp

end
